theory Spec2Isabelle
  imports
    Complex_Main
    "HOL-Library.Multiset"
    "HOL-Library.Char_ord"
    "HOL-Library.List_Lexorder"
    "HOL-Library.Product_Lexorder"
begin

section \<open>Data frames\<close>

text \<open>
  Both scripts work on one pandas data frame read from \<^verbatim>\<open>crop_yield.csv\<close>. A cell of the
  frame is missing (\<open>NaN\<close>), a number or a text; numbers are exact reals here, so the
  rounding of IEEE doubles is outside the model. A row gives a cell for every column name;
  only the names listed in \<open>columns\<close> exist in the frame, and every operation below
  looks a column up through \<open>columns\<close> first, as \<^verbatim>\<open>df['X']\<close> does.
\<close>

datatype cell = NaN | Num real | Str string

text \<open>The Python exceptions the modelled statements can raise.\<close>

datatype error = KeyError | ValueError | TypeError

type_synonym row = "string \<Rightarrow> cell"

record dataframe =
  columns :: "string list"
  rows :: "row list"

definition ebind :: "error + 'a \<Rightarrow> ('a \<Rightarrow> error + 'b) \<Rightarrow> error + 'b" where
  "ebind m f = (case m of Inl e \<Rightarrow> Inl e | Inr x \<Rightarrow> f x)"

text \<open>An elementwise operation that raises at the first cell it cannot handle.\<close>

fun traverse :: "('a \<Rightarrow> error + 'b) \<Rightarrow> 'a list \<Rightarrow> error + 'b list" where
  "traverse f [] = Inr []"
| "traverse f (x # xs) =
     (case f x of
        Inl e \<Rightarrow> Inl e
      | Inr y \<Rightarrow> (case traverse f xs of Inl e \<Rightarrow> Inl e | Inr ys \<Rightarrow> Inr (y # ys)))"

text \<open>\<^verbatim>\<open>df[c]\<close>: the column as a series, \<open>KeyError\<close> when the frame has no such column.\<close>

definition getitem :: "dataframe \<Rightarrow> string \<Rightarrow> error + cell list" where
  "getitem df c =
     (if c \<in> set (columns df) then Inr (map (\<lambda>r. r c) (rows df)) else Inl KeyError)"

text \<open>\<^verbatim>\<open>df[c] = s\<close> for a series \<open>s\<close> on the frame's own index: the column is
  replaced, or appended when it is new.\<close>

definition setitem :: "dataframe \<Rightarrow> string \<Rightarrow> cell list \<Rightarrow> dataframe" where
  "setitem df c s =
     df\<lparr>columns := (if c \<in> set (columns df) then columns df else columns df @ [c]),
        rows := map2 (\<lambda>r v. r(c := v)) (rows df) s\<rparr>"

text \<open>\<^verbatim>\<open>df[mask]\<close>: the rows whose mask entry is true, in their order.\<close>

definition boolean_index :: "dataframe \<Rightarrow> bool list \<Rightarrow> dataframe" where
  "boolean_index df keep = df\<lparr>rows := map snd (filter fst (zip keep (rows df)))\<rparr>"

subsection \<open>Comparisons of a series with a scalar\<close>

text \<open>
  An ordering comparison of a missing cell is false; on a column of text it raises
  \<open>TypeError\<close> (Python cannot order a \<^verbatim>\<open>str\<close> and a number). Equality never raises:
  a missing cell equals nothing and a text is never equal to a number.
\<close>

fun cell_gt :: "cell \<Rightarrow> real \<Rightarrow> error + bool" where
  "cell_gt NaN k = Inr False"
| "cell_gt (Num x) k = Inr (k < x)"
| "cell_gt (Str s) k = Inl TypeError"

fun cell_ge :: "cell \<Rightarrow> real \<Rightarrow> error + bool" where
  "cell_ge NaN k = Inr False"
| "cell_ge (Num x) k = Inr (k \<le> x)"
| "cell_ge (Str s) k = Inl TypeError"

fun cell_le :: "cell \<Rightarrow> real \<Rightarrow> error + bool" where
  "cell_le NaN k = Inr False"
| "cell_le (Num x) k = Inr (x \<le> k)"
| "cell_le (Str s) k = Inl TypeError"

fun cell_eq :: "cell \<Rightarrow> cell \<Rightarrow> bool" where
  "cell_eq (Num x) (Num y) = (x = y)"
| "cell_eq (Str s) (Str t) = (s = t)"
| "cell_eq _ _ = False"

definition series_gt :: "cell list \<Rightarrow> real \<Rightarrow> error + bool list" where
  "series_gt s k = traverse (\<lambda>c. cell_gt c k) s"

definition series_ge :: "cell list \<Rightarrow> real \<Rightarrow> error + bool list" where
  "series_ge s k = traverse (\<lambda>c. cell_ge c k) s"

definition series_le :: "cell list \<Rightarrow> real \<Rightarrow> error + bool list" where
  "series_le s k = traverse (\<lambda>c. cell_le c k) s"

definition series_eq :: "cell list \<Rightarrow> cell \<Rightarrow> bool list" where
  "series_eq s v = map (\<lambda>c. cell_eq c v) s"

definition mask_and :: "bool list \<Rightarrow> bool list \<Rightarrow> bool list" where
  "mask_and a b = map2 (\<and>) a b"

definition mask_not :: "bool list \<Rightarrow> bool list" where
  "mask_not a = map Not a"

section \<open>Cleaning\<close>

subsection \<open>Year conversion\<close>

text \<open>
  \<^verbatim>\<open>astype(int)\<close> truncates a number towards zero and raises \<open>ValueError\<close> on a
  missing value. A column that \<^verbatim>\<open>read_csv\<close> left as text holds a value it could not
  read as a number, and the conversion raises \<open>ValueError\<close> there too.
\<close>

definition trunc :: "real \<Rightarrow> int" where
  "trunc x = (if x < 0 then \<lceil>x\<rceil> else \<lfloor>x\<rfloor>)"

fun astype_int_cell :: "cell \<Rightarrow> error + cell" where
  "astype_int_cell NaN = Inl ValueError"
| "astype_int_cell (Num x) = Inr (Num (of_int (trunc x)))"
| "astype_int_cell (Str s) = Inl ValueError"

definition astype_int :: "cell list \<Rightarrow> error + cell list" where
  "astype_int s = traverse astype_int_cell s"

text \<open>
  The batch script (lines 39 to 43):
  \<^verbatim>\<open>
  if 'Crop_Year' in df.columns:
      df['Year'] = df['Crop_Year'].astype(int)
  elif 'Year' in df.columns:
      df['Year'] = df['Year'].astype(int)
  \<close>
\<close>

definition convert_year_batch :: "dataframe \<Rightarrow> error + dataframe" where
  "convert_year_batch df =
     (if ''Crop_Year'' \<in> set (columns df) then
        ebind (getitem df ''Crop_Year'') (\<lambda>s.
        ebind (astype_int s) (\<lambda>ys. Inr (setitem df ''Year'' ys)))
      else if ''Year'' \<in> set (columns df) then
        ebind (getitem df ''Year'') (\<lambda>s.
        ebind (astype_int s) (\<lambda>ys. Inr (setitem df ''Year'' ys)))
      else Inr df)"

text \<open>
  The dashboard's \<^verbatim>\<open>load_data\<close> (lines 18 to 20) has the first branch only:
  \<^verbatim>\<open>
  if 'Crop_Year' in df.columns:
      df['Year'] = df['Crop_Year'].astype(int)
  \<close>
\<close>

definition convert_year_dashboard :: "dataframe \<Rightarrow> error + dataframe" where
  "convert_year_dashboard df =
     (if ''Crop_Year'' \<in> set (columns df) then
        ebind (getitem df ''Crop_Year'') (\<lambda>s.
        ebind (astype_int s) (\<lambda>ys. Inr (setitem df ''Year'' ys)))
      else Inr df)"

subsection \<open>Outlier removal\<close>

text \<open>
  Both scripts:
  \<^verbatim>\<open>
  if 'Area' in df.columns and 'Production' in df.columns:
      df = df[~((df['Area'] > 0) & (df['Production'] == 0))]
  \<close>
\<close>

definition remove_outliers :: "dataframe \<Rightarrow> error + dataframe" where
  "remove_outliers df =
     (if ''Area'' \<in> set (columns df) \<and> ''Production'' \<in> set (columns df) then
        ebind (getitem df ''Area'') (\<lambda>area.
        ebind (series_gt area 0) (\<lambda>positive.
        ebind (getitem df ''Production'') (\<lambda>production.
          Inr (boolean_index df
                 (mask_not (mask_and positive (series_eq production (Num 0))))))))
      else Inr df)"

text \<open>
  The batch script's STEP 2. Between the year conversion and the outlier removal it turns
  State, Crop and Season into categorical columns; that changes the dtype of the column
  and none of its cells, so the frame of this model stays as it is.
\<close>

definition clean :: "dataframe \<Rightarrow> error + dataframe" where
  "clean df = ebind (convert_year_batch df) remove_outliers"

text \<open>The dashboard's \<^verbatim>\<open>load_data\<close>, after \<^verbatim>\<open>read_csv\<close>.\<close>

definition load_data :: "dataframe \<Rightarrow> error + dataframe" where
  "load_data df = ebind (convert_year_dashboard df) remove_outliers"

text \<open>The removal predicate, read off one row of a frame that has both columns.\<close>

definition is_outlier :: "row \<Rightarrow> bool" where
  "is_outlier r =
     ((case r ''Area'' of Num a \<Rightarrow> 0 < a | _ \<Rightarrow> False) \<and>
      (case r ''Production'' of Num p \<Rightarrow> p = 0 | _ \<Rightarrow> False))"

subsection \<open>Sample tables\<close>

text \<open>The two rows of the specification's cleaning example, and a third row with no area.\<close>

definition row_A :: row where
  "row_A = (\<lambda>c. NaN)(''State'' := Str ''A'', ''Area'' := Num 10, ''Production'' := Num 0)"

definition row_B :: row where
  "row_B = (\<lambda>c. NaN)(''State'' := Str ''B'', ''Area'' := Num 5, ''Production'' := Num 20)"

definition two_rows :: dataframe where
  "two_rows = \<lparr>columns = [''State'', ''Area'', ''Production''], rows = [row_A, row_B]\<rparr>"



section \<open>Rainfall insight\<close>

text \<open>
  Both scripts end with
  \<^verbatim>\<open>
  if rainfall_corr > 0.3:      ... positive impact
  elif rainfall_corr < -0.3:   ... too much rainfall may reduce crop yield
  else:                        ... minimal impact
  \<close>
  The coefficient comes from \<^verbatim>\<open>Series.corr\<close> and may be \<open>NaN\<close> (\<open>None\<close> here), for which
  both comparisons are false.
\<close>

datatype impact = PositiveImpact | NegativeImpact | MinimalImpact

fun float_gt :: "real option \<Rightarrow> real \<Rightarrow> bool" where
  "float_gt None k = False"
| "float_gt (Some x) k = (k < x)"

fun float_lt :: "real option \<Rightarrow> real \<Rightarrow> bool" where
  "float_lt None k = False"
| "float_lt (Some x) k = (x < k)"

definition rainfall_impact :: "real option \<Rightarrow> impact" where
  "rainfall_impact rainfall_corr =
     (if float_gt rainfall_corr 0.3 then PositiveImpact
      else if float_lt rainfall_corr (- 0.3) then NegativeImpact
      else MinimalImpact)"

section \<open>Dashboard filters\<close>

text \<open>
  The selections of the three select boxes and of the year slider. An option of a select
  box is the sentinel text or a value of the column, so a selection is a cell.
\<close>

record filter_spec =
  selected_state :: cell
  selected_crop :: cell
  selected_season :: cell
  year_range :: "int \<times> int"

text \<open>\<^verbatim>\<open>df[df[c] == v]\<close>\<close>

definition filter_equal :: "dataframe \<Rightarrow> string \<Rightarrow> cell \<Rightarrow> error + dataframe" where
  "filter_equal df c v = ebind (getitem df c) (\<lambda>s. Inr (boolean_index df (series_eq s v)))"

text \<open>\<^verbatim>\<open>df[(df['Year'] >= year_range[0]) & (df['Year'] <= year_range[1])]\<close>\<close>

definition filter_year_range :: "dataframe \<Rightarrow> int \<times> int \<Rightarrow> error + dataframe" where
  "filter_year_range df yr =
     ebind (getitem df ''Year'') (\<lambda>y1.
     ebind (series_ge y1 (of_int (fst yr))) (\<lambda>lower.
     ebind (getitem df ''Year'') (\<lambda>y2.
     ebind (series_le y2 (of_int (snd yr))) (\<lambda>upper.
       Inr (boolean_index df (mask_and lower upper))))))"

text \<open>
  Lines 50 to 62 of the dashboard:
  \<^verbatim>\<open>
  filtered_df = df.copy()
  if selected_state != 'All States':
      filtered_df = filtered_df[filtered_df['State'] == selected_state]
  if selected_crop != 'All Crops':
      filtered_df = filtered_df[filtered_df['Crop'] == selected_crop]
  if selected_season != 'All Seasons':
      filtered_df = filtered_df[filtered_df['Season'] == selected_season]
  filtered_df = filtered_df[(filtered_df['Year'] >= year_range[0])
                            & (filtered_df['Year'] <= year_range[1])]
  \<close>
\<close>

definition apply_filters :: "dataframe \<Rightarrow> filter_spec \<Rightarrow> error + dataframe" where
  "apply_filters df sel =
     ebind (if selected_state sel \<noteq> Str ''All States''
            then filter_equal df ''State'' (selected_state sel) else Inr df) (\<lambda>by_state.
     ebind (if selected_crop sel \<noteq> Str ''All Crops''
            then filter_equal by_state ''Crop'' (selected_crop sel) else Inr by_state) (\<lambda>by_crop.
     ebind (if selected_season sel \<noteq> Str ''All Seasons''
            then filter_equal by_crop ''Season'' (selected_season sel) else Inr by_crop) (\<lambda>by_season.
       filter_year_range by_season (year_range sel))))"

text \<open>
  The bounds of the slider (lines 46 and 47):
  \<^verbatim>\<open>
  min_year = int(df['Year'].min())
  max_year = int(df['Year'].max())
  \<close>
  \<^verbatim>\<open>min\<close> and \<^verbatim>\<open>max\<close> skip missing values and are \<open>NaN\<close> when nothing is left, and
  \<^verbatim>\<open>int\<close> of \<open>NaN\<close> raises \<open>ValueError\<close>. On a column of text the result is a text or a
  \<open>TypeError\<close>, and \<^verbatim>\<open>int\<close> of a text that is no number raises \<open>ValueError\<close>; the model
  raises \<open>ValueError\<close> for every column with a text.
\<close>

fun numbers :: "cell list \<Rightarrow> error + real list" where
  "numbers [] = Inr []"
| "numbers (NaN # cs) = numbers cs"
| "numbers (Num x # cs) = ebind (numbers cs) (\<lambda>xs. Inr (x # xs))"
| "numbers (Str s # cs) = Inl ValueError"

definition series_min :: "cell list \<Rightarrow> error + real option" where
  "series_min s =
     ebind (numbers s) (\<lambda>xs. case xs of [] \<Rightarrow> Inr None | x # ys \<Rightarrow> Inr (Some (fold min ys x)))"

definition series_max :: "cell list \<Rightarrow> error + real option" where
  "series_max s =
     ebind (numbers s) (\<lambda>xs. case xs of [] \<Rightarrow> Inr None | x # ys \<Rightarrow> Inr (Some (fold max ys x)))"

fun py_int :: "real option \<Rightarrow> error + int" where
  "py_int None = Inl ValueError"
| "py_int (Some x) = Inr (trunc x)"

definition year_bounds :: "dataframe \<Rightarrow> error + int \<times> int" where
  "year_bounds df =
     ebind (getitem df ''Year'') (\<lambda>y1.
     ebind (series_min y1) (\<lambda>lo.
     ebind (py_int lo) (\<lambda>min_year.
     ebind (getitem df ''Year'') (\<lambda>y2.
     ebind (series_max y2) (\<lambda>hi.
     ebind (py_int hi) (\<lambda>max_year.
       Inr (min_year, max_year)))))))"

text \<open>The selection the dashboard starts with: nothing chosen, the whole range of years.\<close>

definition unfiltered :: "int \<times> int \<Rightarrow> filter_spec" where
  "unfiltered yr =
     \<lparr>selected_state = Str ''All States'', selected_crop = Str ''All Crops'',
      selected_season = Str ''All Seasons'', year_range = yr\<rparr>"

text \<open>Row-wise readings of the filter, used to state what it keeps.\<close>

definition year_in :: "int \<times> int \<Rightarrow> row \<Rightarrow> bool" where
  "year_in yr r = (case r ''Year'' of Num y \<Rightarrow> of_int (fst yr) \<le> y \<and> y \<le> of_int (snd yr) | _ \<Rightarrow> False)"

definition is_text :: "cell \<Rightarrow> bool" where
  "is_text c = (case c of Str s \<Rightarrow> True | _ \<Rightarrow> False)"

definition chosen :: "string \<Rightarrow> string \<Rightarrow> cell \<Rightarrow> row \<Rightarrow> bool" where
  "chosen c everything v r = (v = Str everything \<or> cell_eq (r c) v)"

definition matches :: "filter_spec \<Rightarrow> row \<Rightarrow> bool" where
  "matches sel r =
     (chosen ''State'' ''All States'' (selected_state sel) r \<and>
      chosen ''Crop'' ''All Crops'' (selected_crop sel) r \<and>
      chosen ''Season'' ''All Seasons'' (selected_season sel) r \<and>
      year_in (year_range sel) r)"

definition columns_chosen :: "dataframe \<Rightarrow> filter_spec \<Rightarrow> bool" where
  "columns_chosen df sel =
     ((selected_state sel = Str ''All States'' \<or> ''State'' \<in> set (columns df)) \<and>
      (selected_crop sel = Str ''All Crops'' \<or> ''Crop'' \<in> set (columns df)) \<and>
      (selected_season sel = Str ''All Seasons'' \<or> ''Season'' \<in> set (columns df)) \<and>
      ''Year'' \<in> set (columns df))"

definition labels_match :: "filter_spec \<Rightarrow> row \<Rightarrow> bool" where
  "labels_match sel r =
     (chosen ''State'' ''All States'' (selected_state sel) r \<and>
      chosen ''Crop'' ''All Crops'' (selected_crop sel) r \<and>
      chosen ''Season'' ''All Seasons'' (selected_season sel) r)"

definition is_whole :: "cell \<Rightarrow> bool" where
  "is_whole c = (case c of Num y \<Rightarrow> of_int \<lfloor>y\<rfloor> = y | _ \<Rightarrow> False)"

subsection \<open>A sample table for the dashboard\<close>

definition survey_1 :: row where
  "survey_1 = (\<lambda>c. NaN)(''State'' := Str ''A'', ''Crop'' := Str ''Rice'', ''Season'' := Str ''Kharif'',
     ''Year'' := Num 1997, ''Yield'' := Num 2, ''Production'' := Num 10)"

definition survey_2 :: row where
  "survey_2 = (\<lambda>c. NaN)(''State'' := Str ''B'', ''Crop'' := Str ''Rice'', ''Season'' := Str ''Rabi'',
     ''Year'' := Num 1998, ''Yield'' := Num 4, ''Production'' := Num 30)"

definition survey_3 :: row where
  "survey_3 = (\<lambda>c. NaN)(''State'' := Str ''A'', ''Crop'' := Str ''Wheat'', ''Season'' := Str ''Rabi'',
     ''Year'' := Num 2000, ''Yield'' := Num 3, ''Production'' := Num 20)"

definition survey :: dataframe where
  "survey =
     \<lparr>columns = [''State'', ''Crop'', ''Season'', ''Year'', ''Yield'', ''Production''],
      rows = [survey_1, survey_2, survey_3]\<rparr>"

definition state_A_until_1999 :: filter_spec where
  "state_A_until_1999 =
     \<lparr>selected_state = Str ''A'', selected_crop = Str ''All Crops'',
      selected_season = Str ''All Seasons'', year_range = (1997, 1999)\<rparr>"

subsection \<open>Row-wise reading of the year conversion\<close>

definition is_num :: "cell \<Rightarrow> bool" where
  "is_num c = (case c of Num x \<Rightarrow> True | _ \<Rightarrow> False)"

definition to_int :: "cell \<Rightarrow> cell" where
  "to_int c = (case c of Num x \<Rightarrow> Num (of_int (trunc x)) | _ \<Rightarrow> c)"

definition with_year :: "string \<Rightarrow> dataframe \<Rightarrow> dataframe" where
  "with_year src df =
     df\<lparr>columns := (if ''Year'' \<in> set (columns df) then columns df else columns df @ [''Year'']),
        rows := map (\<lambda>r. r(''Year'' := to_int (r src))) (rows df)\<rparr>"





subsection \<open>Sample raw tables\<close>

definition raw_1 :: row where
  "raw_1 = (\<lambda>c. NaN)(''State'' := Str ''A'', ''Crop_Year'' := Num 1997, ''Area'' := Num 10,
     ''Production'' := Num 5)"

definition raw_2 :: row where
  "raw_2 = (\<lambda>c. NaN)(''State'' := Str ''B'', ''Crop_Year'' := Num 1998, ''Area'' := Num 4,
     ''Production'' := Num 0)"

definition raw_table :: dataframe where
  "raw_table =
     \<lparr>columns = [''State'', ''Crop_Year'', ''Area'', ''Production''], rows = [raw_1, raw_2]\<rparr>"

definition dated_1 :: row where
  "dated_1 = (\<lambda>c. NaN)(''State'' := Str ''A'', ''Year'' := Num 1997.5)"

definition dated_table :: dataframe where
  "dated_table = \<lparr>columns = [''State'', ''Year''], rows = [dated_1]\<rparr>"





section \<open>Aggregation\<close>

subsection \<open>Grouped mean and sum\<close>

text \<open>
  \<^verbatim>\<open>df.groupby(key)[metric].mean()\<close> and \<^verbatim>\<open>.sum()\<close>, as both scripts call them (the batch
  script with \<^verbatim>\<open>observed=True\<close> on its categorical columns, which comes to the same
  groups). Rows with a missing key belong to no group; the groups come in ascending order
  of the key, numbers before texts; missing values of the metric are skipped. The mean
  of a group with no value left is \<open>NaN\<close>, its sum is 0. A metric column of text raises
  \<open>TypeError\<close>.

  pandas computes the sum and the mean of the values of a group in IEEE doubles (a
  compensated sum, for the mean followed by a division), in compiled code that is not
  part of the repository. They are the parameters \<open>double_sum\<close> and \<open>double_mean\<close>: nothing
  is assumed about how they round. Values so large that the sum overflows are outside
  the model.
\<close>

fun key_rank :: "cell \<Rightarrow> nat \<times> real \<times> string" where
  "key_rank (Num x) = (0, x, [])"
| "key_rank (Str s) = (1, 0, s)"
| "key_rank NaN = (2, 0, [])"

definition group_keys :: "cell list \<Rightarrow> cell list" where
  "group_keys ks = sort_key key_rank (remdups (filter (\<lambda>k. k \<noteq> NaN) ks))"

fun present :: "cell list \<Rightarrow> real list" where
  "present [] = []"
| "present (Num x # cs) = x # present cs"
| "present (c # cs) = present cs"

definition mean :: "(real list \<Rightarrow> real) \<Rightarrow> cell list \<Rightarrow> cell" where
  "mean double_mean cs = (let xs = present cs in if xs = [] then NaN else Num (double_mean xs))"

definition total :: "(real list \<Rightarrow> real) \<Rightarrow> cell list \<Rightarrow> cell" where
  "total double_sum cs = (let xs = present cs in if xs = [] then Num 0 else Num (double_sum xs))"

definition groupby_agg ::
  "(cell list \<Rightarrow> cell) \<Rightarrow> dataframe \<Rightarrow> string \<Rightarrow> string \<Rightarrow> error + (cell \<times> cell) list" where
  "groupby_agg agg df key metric =
     ebind (getitem df key) (\<lambda>ks.
     ebind (getitem df metric) (\<lambda>ms.
       if \<exists>m\<in>set ms. is_text m then Inl TypeError
       else Inr (map (\<lambda>k. (k, agg (map snd (filter (\<lambda>km. fst km = k) (zip ks ms)))))
                   (group_keys ks))))"

definition groupby_mean ::
  "(real list \<Rightarrow> real) \<Rightarrow> dataframe \<Rightarrow> string \<Rightarrow> string \<Rightarrow> error + (cell \<times> cell) list" where
  "groupby_mean double_mean = groupby_agg (mean double_mean)"

definition groupby_sum ::
  "(real list \<Rightarrow> real) \<Rightarrow> dataframe \<Rightarrow> string \<Rightarrow> string \<Rightarrow> error + (cell \<times> cell) list" where
  "groupby_sum double_sum = groupby_agg (total double_sum)"

text \<open>
  The sum and the quotient without rounding. A double sum and a double mean return the
  same numbers wherever the sum and the quotient are doubles themselves, as they are
  on the sample tables of this theory (small whole numbers, and halves of them).
\<close>

definition unrounded_sum :: "real list \<Rightarrow> real" where
  "unrounded_sum xs = sum_list xs"

definition unrounded_mean :: "real list \<Rightarrow> real" where
  "unrounded_mean xs = sum_list xs / real (length xs)"

subsection \<open>The best group\<close>

text \<open>
  \<^verbatim>\<open>Series.idxmax()\<close>: the label of the first greatest value, missing values skipped. On a
  series with no entry it raises \<open>ValueError\<close>. What it does on a series whose values are
  all missing depends on the version of pandas (\<open>NaN\<close> with a warning, or
  \<open>ValueError\<close>), so that answer is the parameter \<open>all_missing\<close>.
\<close>

fun numeric_entries :: "(cell \<times> cell) list \<Rightarrow> (cell \<times> real) list" where
  "numeric_entries [] = []"
| "numeric_entries ((k, Num v) # es) = (k, v) # numeric_entries es"
| "numeric_entries (e # es) = numeric_entries es"

fun first_max :: "cell \<times> real \<Rightarrow> (cell \<times> real) list \<Rightarrow> cell \<times> real" where
  "first_max best [] = best"
| "first_max best (e # es) = (if snd best < snd e then first_max e es else first_max best es)"

definition idxmax :: "error + cell \<Rightarrow> (cell \<times> cell) list \<Rightarrow> error + cell" where
  "idxmax all_missing s =
     (if s = [] then Inl ValueError
      else case numeric_entries s of
             [] \<Rightarrow> all_missing
           | e # es \<Rightarrow> Inr (fst (first_max e es)))"

text \<open>
  The key insights of both scripts:
  \<^verbatim>\<open>
  best_state = df.groupby('State')['Yield'].mean().idxmax()
  best_season = df.groupby('Season')['Production'].sum().idxmax()
  best_crop = filtered_df.groupby('Crop')['Yield'].mean().idxmax()
  \<close>
  (the last one in the dashboard only).
\<close>

definition best_state :: "error + cell \<Rightarrow> (real list \<Rightarrow> real) \<Rightarrow> dataframe \<Rightarrow> error + cell" where
  "best_state all_missing double_mean df =
     ebind (groupby_mean double_mean df ''State'' ''Yield'') (idxmax all_missing)"

definition best_season :: "error + cell \<Rightarrow> (real list \<Rightarrow> real) \<Rightarrow> dataframe \<Rightarrow> error + cell" where
  "best_season all_missing double_sum df =
     ebind (groupby_sum double_sum df ''Season'' ''Production'') (idxmax all_missing)"

definition best_crop :: "error + cell \<Rightarrow> (real list \<Rightarrow> real) \<Rightarrow> dataframe \<Rightarrow> error + cell" where
  "best_crop all_missing double_mean df =
     ebind (groupby_mean double_mean df ''Crop'' ''Yield'') (idxmax all_missing)"

text \<open>
  The dashboard runs these queries under a guard (lines 219 to 247):
  \<^verbatim>\<open>
  if len(filtered_df) > 0:
      ... the queries ...
  else:
      st.warning("No data available for the selected filters.")
  \<close>
  \<open>None\<close> stands for the warning. The batch script runs them unguarded.
\<close>

definition key_insight :: "(dataframe \<Rightarrow> error + cell) \<Rightarrow> dataframe \<Rightarrow> error + cell option" where
  "key_insight query filtered_df =
     (if 0 < length (rows filtered_df) then ebind (query filtered_df) (\<lambda>k. Inr (Some k))
      else Inr None)"

text \<open>A table with one row, on which neither a yield nor a production was recorded.\<close>

definition fallow_1 :: row where
  "fallow_1 = (\<lambda>c. NaN)(''State'' := Str ''A'', ''Crop'' := Str ''Rice'', ''Season'' := Str ''Kharif'')"

definition fallow :: dataframe where
  "fallow =
     \<lparr>columns = [''State'', ''Crop'', ''Season'', ''Yield'', ''Production''], rows = [fallow_1]\<rparr>"

subsection \<open>Ranking\<close>

text \<open>
  Chart 2 of both scripts:
  \<^verbatim>\<open>
  top_states_yield = df.groupby('State')['Yield'].mean().sort_values(ascending=False).head(10)
  \<close>
  \<^verbatim>\<open>sort_values\<close> is called with its default sort kind and no key. For a descending sort
  pandas reverses the entries that hold a value, asks numpy for the indices that sort the
  reversed values in ascending order, takes the entries in the reverse of that order and
  puts the entries without a value last. The index sort of numpy is not part of the
  repository and its default kind is not a stable one, so it is the parameter \<open>argsort\<close>;
  \<open>argsort_ok\<close> is what every kind guarantees: a permutation of the positions that puts
  the values in ascending order.
\<close>

fun value_of :: "cell \<times> cell \<Rightarrow> real" where
  "value_of (k, Num v) = v"
| "value_of (k, c) = 0"

definition sort_values_desc ::
  "(real list \<Rightarrow> nat list) \<Rightarrow> (cell \<times> cell) list \<Rightarrow> (cell \<times> cell) list" where
  "sort_values_desc argsort s =
     (let non_nans = rev (filter (\<lambda>e. snd e \<noteq> NaN) s);
          indexer = argsort (map value_of non_nans)
      in rev (map (\<lambda>i. non_nans ! i) indexer) @ filter (\<lambda>e. snd e = NaN) s)"

definition top_states_yield ::
  "(real list \<Rightarrow> nat list) \<Rightarrow> (real list \<Rightarrow> real) \<Rightarrow> dataframe \<Rightarrow>
     error + (cell \<times> cell) list" where
  "top_states_yield argsort double_mean df =
     ebind (groupby_mean double_mean df ''State'' ''Yield'')
       (\<lambda>s. Inr (take 10 (sort_values_desc argsort s)))"

definition argsort_ok :: "(real list \<Rightarrow> nat list) \<Rightarrow> real list \<Rightarrow> bool" where
  "argsort_ok argsort vs =
     (mset (argsort vs) = mset [0..<length vs] \<and> sorted (map (\<lambda>i. vs ! i) (argsort vs)))"

text \<open>Greater values first, entries without a value last.\<close>

fun before :: "cell \<times> cell \<Rightarrow> cell \<times> cell \<Rightarrow> bool" where
  "before (k, Num x) (l, Num y) = (y \<le> x)"
| "before (k, NaN) (l, Num y) = False"
| "before a b = True"

definition descending :: "(cell \<times> cell) list \<Rightarrow> bool" where
  "descending s = sorted_wrt before s"

text \<open>
  Two index sorts that meet \<open>argsort_ok\<close>: an insertion sort, which keeps equal values in
  the order of their positions, and the same sort fed from the other end, which turns
  them round.
\<close>

definition argsort_stable :: "real list \<Rightarrow> nat list" where
  "argsort_stable vs = map snd (sort_key fst (zip vs [0..<length vs]))"

definition argsort_reversing :: "real list \<Rightarrow> nat list" where
  "argsort_reversing vs = map snd (sort_key fst (rev (zip vs [0..<length vs])))"

text \<open>The aggregate of the specification's ranking example.\<close>

definition tied_states :: "(cell \<times> cell) list" where
  "tied_states = [(Str ''A'', Num 4), (Str ''B'', Num 4), (Str ''C'', Num 2)]"

section \<open>Properties\<close>

subsection \<open>Auxiliary facts\<close>

lemma traverse_Inr_iff: "traverse f xs = Inr ys \<longleftrightarrow> map f xs = map Inr ys"
proof (induction xs arbitrary: ys)
  case Nil
  then show ?case by auto
next
  case (Cons x xs)
  show ?case
  proof (cases "f x")
    case (Inl e)
    then show ?thesis by (cases ys) auto
  next
    case fx: (Inr y)
    show ?thesis
    proof (cases "traverse f xs")
      case (Inl e)
      then have "\<And>zs. map f xs \<noteq> map Inr zs"
        using Cons.IH by (metis sum.distinct(1))
      with fx Inl show ?thesis by (cases ys) auto
    next
      case (Inr zs)
      then have "map f xs = map Inr zs" using Cons.IH by simp
      with fx Inr show ?thesis
        by (cases ys) (auto simp: inj_map_eq_map [OF inj_Inr])
    qed
  qed
qed

lemma filter_by_mask: "map snd (filter fst (zip (map p xs) xs)) = filter p xs"
  by (induction xs) auto

subsection \<open>Outlier removal, row by row\<close>

lemma cell_gt_Inr: "cell_gt c k = Inr b \<Longrightarrow> b = (case c of Num a \<Rightarrow> k < a | _ \<Rightarrow> False)"
  by (cases c) auto

lemma series_gt_Inr:
  assumes "series_gt (map f rs) k = Inr bs"
  shows "bs = map (\<lambda>r. case f r of Num a \<Rightarrow> k < a | _ \<Rightarrow> False) rs"
proof -
  from assms have eq: "map (\<lambda>c. cell_gt c k) (map f rs) = map Inr bs"
    by (simp add: series_gt_def traverse_Inr_iff)
  then have len: "length bs = length rs"
    by (metis length_map)
  show ?thesis
  proof (rule nth_equalityI)
    show "length bs = length (map (\<lambda>r. case f r of Num a \<Rightarrow> k < a | _ \<Rightarrow> False) rs)"
      using len by simp
  next
    fix i assume i: "i < length bs"
    from eq have "map (\<lambda>c. cell_gt c k) (map f rs) ! i = map Inr bs ! i" by simp
    with i len have "cell_gt (f (rs ! i)) k = Inr (bs ! i)" by simp
    then show "bs ! i = map (\<lambda>r. case f r of Num a \<Rightarrow> k < a | _ \<Rightarrow> False) rs ! i"
      using i len by (simp add: cell_gt_Inr)
  qed
qed

lemma map2_same: "map2 f (map g xs) (map h xs) = map (\<lambda>x. f (g x) (h x)) xs"
  by (induction xs) auto

lemma cell_eq_zero: "cell_eq c (Num 0) = (case c of Num p \<Rightarrow> p = 0 | _ \<Rightarrow> False)"
  by (cases c) auto

lemma remove_outliers_rows:
  assumes "remove_outliers df = Inr df'"
    and "''Area'' \<in> set (columns df)" and "''Production'' \<in> set (columns df)"
  shows "df' = df\<lparr>rows := filter (\<lambda>r. \<not> is_outlier r) (rows df)\<rparr>"
proof -
  from assms obtain positive where
    pos: "series_gt (map (\<lambda>r. r ''Area'') (rows df)) 0 = Inr positive" and
    df': "df' = boolean_index df
            (mask_not (mask_and positive
               (series_eq (map (\<lambda>r. r ''Production'') (rows df)) (Num 0))))"
    by (auto simp: remove_outliers_def getitem_def ebind_def split: sum.splits)
  have "mask_not (mask_and positive
               (series_eq (map (\<lambda>r. r ''Production'') (rows df)) (Num 0)))
        = map (\<lambda>r. \<not> is_outlier r) (rows df)"
    unfolding series_gt_Inr [OF pos]
    by (simp add: mask_not_def mask_and_def series_eq_def map2_same is_outlier_def
        cell_eq_zero o_def)
  with df' show ?thesis
    by (simp add: boolean_index_def filter_by_mask)
qed

lemma remove_outliers_absent:
  "\<not> (''Area'' \<in> set (columns df) \<and> ''Production'' \<in> set (columns df)) \<Longrightarrow>
   remove_outliers df = Inr df"
  by (auto simp: remove_outliers_def)

lemma remove_outliers_clean:
  assumes "remove_outliers df = Inr df'"
  shows "\<forall>r\<in>set (rows df').
           \<not> (''Area'' \<in> set (columns df') \<and> ''Production'' \<in> set (columns df') \<and> is_outlier r)"
proof (cases "''Area'' \<in> set (columns df) \<and> ''Production'' \<in> set (columns df)")
  case True
  with assms have "df' = df\<lparr>rows := filter (\<lambda>r. \<not> is_outlier r) (rows df)\<rparr>"
    by (simp add: remove_outliers_rows)
  then show ?thesis by simp
next
  case False
  with assms have "df' = df" by (simp add: remove_outliers_absent)
  with False show ?thesis by blast
qed

lemma ex_clean: "clean two_rows = Inr (two_rows\<lparr>rows := [row_B]\<rparr>)"
  by (simp add: clean_def convert_year_batch_def two_rows_def remove_outliers_def getitem_def
      ebind_def series_gt_def series_eq_def mask_and_def mask_not_def boolean_index_def
      row_A_def row_B_def)

lemma ex_load: "load_data two_rows = Inr (two_rows\<lparr>rows := [row_B]\<rparr>)"
  by (simp add: load_data_def convert_year_dashboard_def two_rows_def remove_outliers_def getitem_def
      ebind_def series_gt_def series_eq_def mask_and_def mask_not_def boolean_index_def
      row_A_def row_B_def)

text \<open>
  C1. Whatever table the batch script's cleaning step or the dashboard's \<^verbatim>\<open>load_data\<close>
  returns, none of its rows has \<open>Area > 0\<close> and \<open>Production == 0\<close>. On the two-row
  table (A, 10, 0), (B, 5, 20) the row of state A is removed and exactly the row of
  state B is left.
\<close>

theorem clean_no_outliers:
  "(clean df = Inr df' \<longrightarrow>
      (\<forall>r\<in>set (rows df').
         \<not> (''Area'' \<in> set (columns df') \<and> ''Production'' \<in> set (columns df') \<and> is_outlier r))) \<and>
   (load_data df = Inr df' \<longrightarrow>
      (\<forall>r\<in>set (rows df').
         \<not> (''Area'' \<in> set (columns df') \<and> ''Production'' \<in> set (columns df') \<and> is_outlier r))) \<and>
   is_outlier row_A \<and> \<not> is_outlier row_B \<and>
   clean two_rows = Inr (two_rows\<lparr>rows := [row_B]\<rparr>) \<and>
   load_data two_rows = Inr (two_rows\<lparr>rows := [row_B]\<rparr>)"
proof -
  have "clean df = Inr df' \<Longrightarrow> \<exists>d. remove_outliers d = Inr df'"
    by (auto simp: clean_def ebind_def split: sum.splits)
  moreover have "load_data df = Inr df' \<Longrightarrow> \<exists>d. remove_outliers d = Inr df'"
    by (auto simp: load_data_def ebind_def split: sum.splits)
  moreover have "is_outlier row_A" "\<not> is_outlier row_B"
    by (simp_all add: is_outlier_def row_A_def row_B_def)
  ultimately show ?thesis
    using remove_outliers_clean ex_clean ex_load by blast
qed

theorem clean_no_outliers_witness:
  "clean two_rows = Inr (two_rows\<lparr>rows := [row_B]\<rparr>) \<and>
   load_data two_rows = Inr (two_rows\<lparr>rows := [row_B]\<rparr>) \<and>
   ''Area'' \<in> set (columns (two_rows\<lparr>rows := [row_B]\<rparr>)) \<and>
   ''Production'' \<in> set (columns (two_rows\<lparr>rows := [row_B]\<rparr>)) \<and>
   row_B \<in> set (rows (two_rows\<lparr>rows := [row_B]\<rparr>)) \<and>
   \<not> is_outlier row_B"
  using clean_no_outliers [of two_rows "two_rows\<lparr>rows := [row_B]\<rparr>"]
  by (simp add: two_rows_def)

subsection \<open>Rainfall insight\<close>

text \<open>
  C2. For a real coefficient \<open>c\<close> the insight is the positive band exactly when
  \<open>c > 0.3\<close>, the negative band exactly when \<open>c < -0.3\<close> and the minimal band exactly
  when \<open>-0.3 \<le> c \<le> 0.3\<close>; so 0.35 is positive, 0.30 and -0.30 are minimal and -0.5 is
  negative.
\<close>

theorem rainfall_impact_bands:
  "(rainfall_impact (Some c) = PositiveImpact \<longleftrightarrow> 0.3 < c) \<and>
   (rainfall_impact (Some c) = NegativeImpact \<longleftrightarrow> c < - 0.3) \<and>
   (rainfall_impact (Some c) = MinimalImpact \<longleftrightarrow> - 0.3 \<le> c \<and> c \<le> 0.3) \<and>
   rainfall_impact (Some 0.35) = PositiveImpact \<and>
   rainfall_impact (Some 0.30) = MinimalImpact \<and>
   rainfall_impact (Some (- 0.3)) = MinimalImpact \<and>
   rainfall_impact (Some (- 0.5)) = NegativeImpact"
  by (auto simp: rainfall_impact_def)

theorem rainfall_impact_bands_witness:
  "rainfall_impact (Some 0.31) = PositiveImpact \<and>
   rainfall_impact (Some 0.3) \<noteq> PositiveImpact \<and>
   rainfall_impact (Some (- 0.31)) = NegativeImpact \<and>
   rainfall_impact (Some 0) = MinimalImpact"
  using rainfall_impact_bands [of "0.31"] rainfall_impact_bands [of "- 0.31"]
    rainfall_impact_bands [of 0]
  by simp

subsection \<open>The dashboard filter, row by row\<close>

lemma series_ge_rows:
  "series_ge (map f rs) k =
     (if \<forall>r\<in>set rs. \<not> is_text (f r)
      then Inr (map (\<lambda>r. case f r of Num y \<Rightarrow> k \<le> y | _ \<Rightarrow> False) rs)
      else Inl TypeError)"
proof (induction rs)
  case Nil
  then show ?case by (simp add: series_ge_def)
next
  case (Cons r rs)
  then show ?case
    by (cases "f r") (auto simp: series_ge_def is_text_def)
qed

lemma series_le_rows:
  "series_le (map f rs) k =
     (if \<forall>r\<in>set rs. \<not> is_text (f r)
      then Inr (map (\<lambda>r. case f r of Num y \<Rightarrow> y \<le> k | _ \<Rightarrow> False) rs)
      else Inl TypeError)"
proof (induction rs)
  case Nil
  then show ?case by (simp add: series_le_def)
next
  case (Cons r rs)
  then show ?case
    by (cases "f r") (auto simp: series_le_def is_text_def)
qed

lemma filter_year_range_rows:
  "filter_year_range df yr =
     (if ''Year'' \<notin> set (columns df) then Inl KeyError
      else if \<forall>r\<in>set (rows df). \<not> is_text (r ''Year'')
      then Inr (df\<lparr>rows := filter (year_in yr) (rows df)\<rparr>)
      else Inl TypeError)"
proof -
  have m: "mask_and (map (\<lambda>r. case r ''Year'' of Num y \<Rightarrow> of_int (fst yr) \<le> y | _ \<Rightarrow> False) (rows df))
             (map (\<lambda>r. case r ''Year'' of Num y \<Rightarrow> y \<le> of_int (snd yr) | _ \<Rightarrow> False) (rows df))
           = map (year_in yr) (rows df)"
    unfolding mask_and_def map2_same
    by (rule map_cong) (auto simp: year_in_def split: cell.splits)
  show ?thesis
    unfolding filter_year_range_def getitem_def
    by (simp add: ebind_def series_ge_rows series_le_rows m boolean_index_def filter_by_mask)
qed

lemma filter_equal_rows:
  "filter_equal df c v =
     (if c \<in> set (columns df)
      then Inr (df\<lparr>rows := filter (\<lambda>r. cell_eq (r c) v) (rows df)\<rparr>)
      else Inl KeyError)"
  by (simp add: filter_equal_def getitem_def ebind_def boolean_index_def series_eq_def
      filter_by_mask o_def)

lemma select_step_rows:
  "(if v \<noteq> Str everything then filter_equal df c v else Inr df) =
     (if v = Str everything \<or> c \<in> set (columns df)
      then Inr (df\<lparr>rows := filter (chosen c everything v) (rows df)\<rparr>)
      else Inl KeyError)"
  by (auto simp: filter_equal_rows chosen_def [abs_def])

lemma apply_filters_rows:
  "apply_filters df sel =
     (if \<not> columns_chosen df sel then Inl KeyError
      else if \<forall>r\<in>set (rows df). labels_match sel r \<longrightarrow> \<not> is_text (r ''Year'')
      then Inr (df\<lparr>rows := filter (matches sel) (rows df)\<rparr>)
      else Inl TypeError)"
proof -
  let ?P1 = "chosen ''State'' ''All States'' (selected_state sel)"
  let ?P2 = "chosen ''Crop'' ''All Crops'' (selected_crop sel)"
  let ?P3 = "chosen ''Season'' ''All Seasons'' (selected_season sel)"
  let ?by_season = "df\<lparr>rows := filter ?P3 (filter ?P2 (filter ?P1 (rows df)))\<rparr>"
  have steps: "apply_filters df sel =
      (if \<not> columns_chosen df sel then Inl KeyError
       else filter_year_range ?by_season (year_range sel))"
    unfolding apply_filters_def select_step_rows columns_chosen_def
    by (simp add: ebind_def filter_year_range_rows)
  have texts: "(\<forall>r\<in>set (rows ?by_season). \<not> is_text (r ''Year'')) \<longleftrightarrow>
      (\<forall>r\<in>set (rows df). labels_match sel r \<longrightarrow> \<not> is_text (r ''Year''))"
    by (auto simp: labels_match_def)
  have kept: "filter (year_in (year_range sel)) (rows ?by_season) = filter (matches sel) (rows df)"
    unfolding matches_def [abs_def] by (simp add: conj_assoc)
  have cols: "columns_chosen df sel \<Longrightarrow> ''Year'' \<in> set (columns ?by_season)"
    by (simp add: columns_chosen_def)
  show ?thesis
    unfolding steps filter_year_range_rows texts kept
    using cols by auto
qed

lemma matches_not_text: "matches sel r \<Longrightarrow> \<not> is_text (r ''Year'')"
  by (auto simp: matches_def year_in_def is_text_def split: cell.splits)

lemma filter_idem:
  "apply_filters df sel = Inr df' \<Longrightarrow> apply_filters df' sel = Inr df'"
proof -
  assume ok: "apply_filters df sel = Inr df'"
  then have cols: "columns_chosen df sel" and df': "df' = df\<lparr>rows := filter (matches sel) (rows df)\<rparr>"
    by (auto simp: apply_filters_rows split: if_splits)
  have "columns_chosen df' sel" using cols df' by (simp add: columns_chosen_def)
  moreover have "\<forall>r\<in>set (rows df'). labels_match sel r \<longrightarrow> \<not> is_text (r ''Year'')"
    using df' by (auto simp: matches_not_text)
  moreover have "df'\<lparr>rows := filter (matches sel) (rows df')\<rparr> = df'"
    using df' by simp
  ultimately show ?thesis by (simp add: apply_filters_rows)
qed

lemma trunc_of_int: "trunc (of_int i) = i"
  by (simp add: trunc_def)

lemma is_whole_trunc:
  assumes "is_whole (Num y)"
  shows "of_int (trunc y) = y"
proof -
  from assms have "of_int \<lfloor>y\<rfloor> = y" by (simp add: is_whole_def)
  then obtain i :: int where "y = of_int i" by metis
  then show ?thesis by (simp add: trunc_of_int)
qed

lemma year_bounds_Inr:
  assumes "year_bounds df = Inr (lo, hi)"
  obtains xs where "''Year'' \<in> set (columns df)"
    and "numbers (map (\<lambda>r. r ''Year'') (rows df)) = Inr xs"
    and "xs \<noteq> []" and "lo = trunc (Min (set xs))" and "hi = trunc (Max (set xs))"
proof -
  from assms have col: "''Year'' \<in> set (columns df)"
    by (auto simp: year_bounds_def getitem_def ebind_def split: if_splits)
  from assms col obtain xs where xs: "numbers (map (\<lambda>r. r ''Year'') (rows df)) = Inr xs"
    by (auto simp: year_bounds_def getitem_def ebind_def series_min_def split: sum.splits)
  from assms col xs obtain x ys where ne: "xs = x # ys"
    by (cases xs) (auto simp: year_bounds_def getitem_def ebind_def series_min_def)
  from assms col xs ne have "lo = trunc (fold min ys x)" "hi = trunc (fold max ys x)"
    by (auto simp: year_bounds_def getitem_def ebind_def series_min_def series_max_def)
  moreover have "fold min ys x = Min (set xs)" "fold max ys x = Max (set xs)"
    unfolding ne by (simp_all only: Min.set_eq_fold Max.set_eq_fold)
  ultimately have "lo = trunc (Min (set xs))" "hi = trunc (Max (set xs))"
    by simp_all
  with col xs ne that show ?thesis by blast
qed

lemma numbers_mem:
  "numbers (map f rs) = Inr xs \<Longrightarrow> x \<in> set xs \<longleftrightarrow> (\<exists>r\<in>set rs. f r = Num x)"
proof (induction rs arbitrary: xs)
  case Nil
  then show ?case by simp
next
  case (Cons r rs)
  show ?case
  proof (cases "f r")
    case NaN
    with Cons show ?thesis by simp
  next
    case (Num y)
    with Cons.prems obtain ys where ys: "numbers (map f rs) = Inr ys" and xs: "xs = y # ys"
      by (auto simp: ebind_def split: sum.splits)
    from Cons.IH [OF ys] Num xs show ?thesis by auto
  next
    case (Str t)
    with Cons.prems show ?thesis by simp
  qed
qed

lemma unfiltered_keeps:
  assumes yb: "year_bounds df = Inr yr"
    and whole: "\<forall>r\<in>set (rows df). is_whole (r ''Year'')"
  shows "apply_filters df (unfiltered yr) = Inr df"
proof -
  obtain lo hi where yr: "yr = (lo, hi)" by (cases yr)
  from yb yr obtain xs where col: "''Year'' \<in> set (columns df)"
    and xs: "numbers (map (\<lambda>r. r ''Year'') (rows df)) = Inr xs"
    and ne: "xs \<noteq> []" and lo: "lo = trunc (Min (set xs))" and hi: "hi = trunc (Max (set xs))"
    by (auto elim: year_bounds_Inr)
  note members = numbers_mem [OF xs]
  have "Min (set xs) \<in> set xs" using ne by simp
  then obtain r1 where "r1 \<in> set (rows df)" "r1 ''Year'' = Num (Min (set xs))"
    using members by blast
  with whole have "is_whole (Num (Min (set xs)))" by metis
  then have lo_eq: "of_int lo = Min (set xs)" unfolding lo by (rule is_whole_trunc)
  have "Max (set xs) \<in> set xs" using ne by simp
  then obtain r2 where "r2 \<in> set (rows df)" "r2 ''Year'' = Num (Max (set xs))"
    using members by blast
  with whole have "is_whole (Num (Max (set xs)))" by metis
  then have hi_eq: "of_int hi = Max (set xs)" unfolding hi by (rule is_whole_trunc)
  have inside: "year_in yr r" if r: "r \<in> set (rows df)" for r
  proof -
    from whole r have "is_whole (r ''Year'')" by blast
    then obtain y where y: "r ''Year'' = Num y"
      by (cases "r ''Year''") (simp_all add: is_whole_def)
    with r members have "y \<in> set xs" by blast
    then have "Min (set xs) \<le> y" "y \<le> Max (set xs)" by simp_all
    with y lo_eq hi_eq show ?thesis by (simp add: year_in_def yr)
  qed
  have c: "columns_chosen df (unfiltered yr)"
    using col by (simp add: columns_chosen_def unfiltered_def)
  have t: "\<forall>r\<in>set (rows df). labels_match (unfiltered yr) r \<longrightarrow> \<not> is_text (r ''Year'')"
  proof (intro ballI impI)
    fix r assume "r \<in> set (rows df)"
    with whole have "is_whole (r ''Year'')" by blast
    then show "\<not> is_text (r ''Year'')"
      by (cases "r ''Year''") (simp_all add: is_whole_def is_text_def)
  qed
  have "\<forall>r\<in>set (rows df). matches (unfiltered yr) r"
    using inside by (simp add: matches_def unfiltered_def chosen_def)
  then have k: "filter (matches (unfiltered yr)) (rows df) = rows df"
    by (simp add: filter_id_conv)
  show ?thesis
    unfolding apply_filters_rows using c t k by simp
qed

text \<open>
  C4. Filtering is idempotent: filtering the filtered table again with the same
  selections gives the filtered table, and a failure of the first filtering is the
  failure of the whole.
\<close>

theorem apply_filters_idempotent:
  "ebind (apply_filters df sel) (\<lambda>filtered. apply_filters filtered sel) = apply_filters df sel"
proof (cases "apply_filters df sel")
  case (Inl e)
  then show ?thesis by (simp add: ebind_def)
next
  case (Inr filtered)
  then show ?thesis by (simp add: ebind_def filter_idem)
qed

lemma survey_filtered:
  "apply_filters survey state_A_until_1999 = Inr (survey\<lparr>rows := [survey_1]\<rparr>)"
  unfolding apply_filters_rows
  by (simp add: survey_def state_A_until_1999_def columns_chosen_def labels_match_def
      matches_def chosen_def year_in_def is_text_def survey_1_def survey_2_def survey_3_def)

theorem apply_filters_idempotent_witness:
  "apply_filters survey state_A_until_1999 = Inr (survey\<lparr>rows := [survey_1]\<rparr>) \<and>
   apply_filters (survey\<lparr>rows := [survey_1]\<rparr>) state_A_until_1999 =
     Inr (survey\<lparr>rows := [survey_1]\<rparr>)"
  using apply_filters_idempotent [of survey state_A_until_1999] survey_filtered
  by (simp add: ebind_def)

text \<open>
  C3. On a table whose years are whole numbers, with nothing selected in the three select
  boxes and the slider on the full range from the least to the greatest year of the
  table, the filter returns the table itself: the same rows, none removed, none added.
\<close>

theorem unfiltered_full_range:
  "year_bounds df = Inr yr \<Longrightarrow> \<forall>r\<in>set (rows df). is_whole (r ''Year'') \<Longrightarrow>
   apply_filters df (unfiltered yr) = Inr df"
  by (rule unfiltered_keeps)

theorem unfiltered_full_range_witness:
  "year_bounds survey = Inr (1997, 2000) \<and>
   is_whole (survey_1 ''Year'') \<and> is_whole (survey_2 ''Year'') \<and> is_whole (survey_3 ''Year'') \<and>
   rows survey = [survey_1, survey_2, survey_3] \<and>
   apply_filters survey (unfiltered (1997, 2000)) = Inr survey"
proof -
  have yb: "year_bounds survey = Inr (1997, 2000)"
    by (simp add: year_bounds_def survey_def getitem_def ebind_def series_min_def
        series_max_def trunc_def survey_1_def survey_2_def survey_3_def)
  have whole: "is_whole (survey_1 ''Year'')" "is_whole (survey_2 ''Year'')"
    "is_whole (survey_3 ''Year'')"
    by (simp_all add: is_whole_def survey_1_def survey_2_def survey_3_def)
  have rs: "rows survey = [survey_1, survey_2, survey_3]"
    by (simp add: survey_def)
  from whole rs have "\<forall>r\<in>set (rows survey). is_whole (r ''Year'')" by simp
  from unfiltered_full_range [OF yb this] yb whole rs show ?thesis by simp
qed

subsection \<open>Year conversion, row by row\<close>

lemma astype_int_rows:
  "astype_int (map f rs) =
     (if \<forall>r\<in>set rs. is_num (f r) then Inr (map (\<lambda>r. to_int (f r)) rs) else Inl ValueError)"
proof (induction rs)
  case Nil
  then show ?case by (simp add: astype_int_def)
next
  case (Cons r rs)
  then show ?case
    by (cases "f r") (auto simp: astype_int_def is_num_def to_int_def)
qed

lemma map2_right: "map2 f xs (map h xs) = map (\<lambda>x. f x (h x)) xs"
  by (induction xs) auto

lemma setitem_rows:
  "setitem df c (map g (rows df)) =
     df\<lparr>columns := (if c \<in> set (columns df) then columns df else columns df @ [c]),
        rows := map (\<lambda>r. r(c := g r)) (rows df)\<rparr>"
  unfolding setitem_def map2_right by simp

lemma convert_from:
  "src \<in> set (columns df) \<Longrightarrow>
   ebind (getitem df src) (\<lambda>s. ebind (astype_int s) (\<lambda>ys. Inr (setitem df ''Year'' ys))) =
     (if \<forall>r\<in>set (rows df). is_num (r src) then Inr (with_year src df) else Inl ValueError)"
  by (simp add: getitem_def ebind_def astype_int_rows setitem_rows with_year_def)

lemma to_int_whole: "is_num c \<Longrightarrow> is_whole (to_int c)"
  by (cases c) (simp_all add: is_num_def to_int_def is_whole_def)

lemma with_year_whole:
  "\<forall>r\<in>set (rows df). is_num (r src) \<Longrightarrow> \<forall>r\<in>set (rows (with_year src df)). is_whole (r ''Year'')"
  by (simp add: with_year_def to_int_whole)

lemma remove_outliers_subset: "remove_outliers df = Inr df' \<Longrightarrow> set (rows df') \<subseteq> set (rows df)"
  by (cases "''Area'' \<in> set (columns df) \<and> ''Production'' \<in> set (columns df)")
    (auto dest: remove_outliers_rows simp: remove_outliers_absent)

text \<open>
  When the file has a \<open>Crop_Year\<close> column, every year of the table that \<^verbatim>\<open>load_data\<close>
  returns is a whole number, which is what the property of the unfiltered selection
  asks of the table.
\<close>

lemma load_data_whole_years:
  assumes "load_data raw = Inr df" and "''Crop_Year'' \<in> set (columns raw)"
  shows "\<forall>r\<in>set (rows df). is_whole (r ''Year'')"
proof -
  from assms obtain d where conv: "convert_year_dashboard raw = Inr d"
    and rem: "remove_outliers d = Inr df"
    by (auto simp: load_data_def ebind_def split: sum.splits)
  from conv assms(2) have nums: "\<forall>r\<in>set (rows raw). is_num (r ''Crop_Year'')"
    and d: "d = with_year ''Crop_Year'' raw"
    by (auto simp: convert_year_dashboard_def convert_from split: if_splits)
  from with_year_whole [OF nums] d have "\<forall>r\<in>set (rows d). is_whole (r ''Year'')" by simp
  with remove_outliers_subset [OF rem] show ?thesis by blast
qed

text \<open>
  C9, as the code has it. When the table has a \<open>Crop_Year\<close> column, both scripts set \<open>Year\<close>
  to its values converted to integers; the batch script otherwise converts an existing
  \<open>Year\<close> column in place. The conversion raises \<open>ValueError\<close> when a value is missing or
  no number. When the table has neither column, nothing is raised and the table is left
  as it is, without a \<open>Year\<close> column.
\<close>

theorem year_conversion:
  "(''Crop_Year'' \<in> set (columns df) \<longrightarrow>
      convert_year_batch df =
        (if \<forall>r\<in>set (rows df). is_num (r ''Crop_Year'')
         then Inr (with_year ''Crop_Year'' df) else Inl ValueError) \<and>
      convert_year_dashboard df = convert_year_batch df) \<and>
   (''Crop_Year'' \<notin> set (columns df) \<and> ''Year'' \<in> set (columns df) \<longrightarrow>
      convert_year_batch df =
        (if \<forall>r\<in>set (rows df). is_num (r ''Year'')
         then Inr (with_year ''Year'' df) else Inl ValueError)) \<and>
   (''Crop_Year'' \<notin> set (columns df) \<and> ''Year'' \<notin> set (columns df) \<longrightarrow>
      convert_year_batch df = Inr df \<and> convert_year_dashboard df = Inr df) \<and>
   ((\<forall>r\<in>set (rows df). is_num (r src)) \<longrightarrow>
      ''Year'' \<in> set (columns (with_year src df)) \<and>
      (\<forall>r\<in>set (rows (with_year src df)). is_whole (r ''Year'')))"
proof (intro conjI impI)
  assume "''Crop_Year'' \<in> set (columns df)"
  then show "convert_year_batch df =
        (if \<forall>r\<in>set (rows df). is_num (r ''Crop_Year'')
         then Inr (with_year ''Crop_Year'' df) else Inl ValueError)"
    and "convert_year_dashboard df = convert_year_batch df"
    by (simp_all add: convert_year_batch_def convert_year_dashboard_def convert_from)
next
  assume "''Crop_Year'' \<notin> set (columns df) \<and> ''Year'' \<in> set (columns df)"
  then show "convert_year_batch df =
        (if \<forall>r\<in>set (rows df). is_num (r ''Year'')
         then Inr (with_year ''Year'' df) else Inl ValueError)"
    by (simp add: convert_year_batch_def convert_from)
next
  assume "''Crop_Year'' \<notin> set (columns df) \<and> ''Year'' \<notin> set (columns df)"
  then show "convert_year_batch df = Inr df" and "convert_year_dashboard df = Inr df"
    by (simp_all add: convert_year_batch_def convert_year_dashboard_def)
next
  assume "\<forall>r\<in>set (rows df). is_num (r src)"
  then show "\<forall>r\<in>set (rows (with_year src df)). is_whole (r ''Year'')"
    by (rule with_year_whole)
next
  show "''Year'' \<in> set (columns (with_year src df))"
    by (simp add: with_year_def)
qed

theorem year_conversion_witness:
  "''Crop_Year'' \<in> set (columns raw_table) \<and>
   is_num (raw_1 ''Crop_Year'') \<and> is_num (raw_2 ''Crop_Year'') \<and>
   convert_year_batch raw_table = Inr (with_year ''Crop_Year'' raw_table) \<and>
   convert_year_dashboard raw_table = Inr (with_year ''Crop_Year'' raw_table) \<and>
   map (\<lambda>r. r ''Year'') (rows (with_year ''Crop_Year'' raw_table)) = [Num 1997, Num 1998] \<and>
   ''Crop_Year'' \<notin> set (columns dated_table) \<and> ''Year'' \<in> set (columns dated_table) \<and>
   is_num (dated_1 ''Year'') \<and>
   convert_year_batch dated_table = Inr (with_year ''Year'' dated_table) \<and>
   map (\<lambda>r. r ''Year'') (rows (with_year ''Year'' dated_table)) = [Num 1997] \<and>
   ''Year'' \<in> set (columns (with_year ''Crop_Year'' raw_table)) \<and>
   is_whole (Num 1997)"
  using year_conversion [of raw_table "''Crop_Year''"] year_conversion [of dated_table "''Year''"]
  by (simp add: raw_table_def raw_1_def raw_2_def dated_table_def dated_1_def is_num_def
      with_year_def to_int_def trunc_def is_whole_def)

text \<open>
  On a table with neither a \<open>Crop_Year\<close> nor a \<open>Year\<close> column the conversion, the batch
  cleaning and \<^verbatim>\<open>load_data\<close> all return a table: no error is raised.
\<close>

theorem year_conversion_counterexample:
  "''Crop_Year'' \<notin> set (columns two_rows) \<and> ''Year'' \<notin> set (columns two_rows) \<and>
   convert_year_batch two_rows = Inr two_rows \<and>
   convert_year_dashboard two_rows = Inr two_rows \<and>
   clean two_rows = Inr (two_rows\<lparr>rows := [row_B]\<rparr>) \<and>
   load_data two_rows = Inr (two_rows\<lparr>rows := [row_B]\<rparr>)"
  using ex_clean ex_load
  by (simp add: convert_year_batch_def convert_year_dashboard_def two_rows_def)

subsection \<open>The whole cleaning, row by row\<close>













subsection \<open>Grouped aggregates\<close>

lemma group_of_rows:
  "map snd (filter (\<lambda>km. fst km = k) (zip (map f rs) (map g rs))) =
     map g (filter (\<lambda>r. f r = k) rs)"
  by (induction rs) auto

lemma groupby_agg_Inr:
  assumes "groupby_agg agg df key metric = Inr s"
  shows "s = map (\<lambda>k. (k, agg (map (\<lambda>r. r metric) (filter (\<lambda>r. r key = k) (rows df)))))
               (group_keys (map (\<lambda>r. r key) (rows df)))"
  using assms
  by (auto simp: groupby_agg_def getitem_def ebind_def group_of_rows split: if_splits)

lemma group_keys_empty: "group_keys ks = [] \<longleftrightarrow> (\<forall>k\<in>set ks. k = NaN)"
proof -
  have "group_keys ks = [] \<longleftrightarrow> set (group_keys ks) = {}" by simp
  also have "set (group_keys ks) = {k \<in> set ks. k \<noteq> NaN}" by (simp add: group_keys_def)
  finally show ?thesis by auto
qed

lemma groupby_agg_empty:
  "groupby_agg agg df key metric = Inr s \<Longrightarrow> s = [] \<longleftrightarrow> (\<forall>r\<in>set (rows df). r key = NaN)"
  by (auto simp: group_keys_empty dest!: groupby_agg_Inr)

lemma groupby_sum_numbers:
  assumes "groupby_sum double_sum df key metric = Inr s" and "e \<in> set s"
  shows "\<exists>v. snd e = Num v"
proof -
  from assms(1) have "s = map (\<lambda>k. (k, total double_sum (map (\<lambda>r. r metric) (filter (\<lambda>r. r key = k) (rows df)))))
               (group_keys (map (\<lambda>r. r key) (rows df)))"
    unfolding groupby_sum_def by (rule groupby_agg_Inr)
  with assms(2) show ?thesis by (auto simp: total_def Let_def)
qed

lemma survey_by_state:
  "groupby_mean unrounded_mean survey ''State'' ''Yield'' =
     Inr [(Str ''A'', Num (5 / 2)), (Str ''B'', Num 4)]"
  by (simp add: groupby_mean_def groupby_agg_def getitem_def ebind_def survey_def survey_1_def
      survey_2_def survey_3_def is_text_def group_keys_def mean_def unrounded_mean_def)

subsection \<open>The best group\<close>

lemma numeric_entries_mem: "(k, v) \<in> set (numeric_entries s) \<longleftrightarrow> (k, Num v) \<in> set s"
  by (induction s rule: numeric_entries.induct) auto

lemma first_max_mem: "first_max b es \<in> set (b # es)"
  by (induction es arbitrary: b) (auto split: if_splits)

lemma first_max_greatest: "e \<in> set (b # es) \<Longrightarrow> snd e \<le> snd (first_max b es)"
proof (induction es arbitrary: b e)
  case Nil
  then show ?case by simp
next
  case (Cons x es)
  show ?case
  proof (cases "snd b < snd x")
    case True
    have "snd x \<le> snd (first_max x es)" by (rule Cons.IH) simp
    with True Cons.prems Cons.IH [of e x] show ?thesis by auto
  next
    case False
    have "snd b \<le> snd (first_max b es)" by (rule Cons.IH) simp
    with False Cons.prems Cons.IH [of e b] show ?thesis by auto
  qed
qed

lemma idxmax_greatest:
  assumes "(k0, Num v0) \<in> set s"
  shows "\<exists>k v. idxmax all_missing s = Inr k \<and> (k, Num v) \<in> set s \<and>
           (\<forall>k' v'. (k', Num v') \<in> set s \<longrightarrow> v' \<le> v)"
proof -
  from assms have "(k0, v0) \<in> set (numeric_entries s)" by (simp add: numeric_entries_mem)
  then obtain e es where es: "numeric_entries s = e # es" by (cases "numeric_entries s") auto
  let ?b = "first_max e es"
  from assms have "s \<noteq> []" by auto
  with es have res: "idxmax all_missing s = Inr (fst ?b)" by (simp add: idxmax_def)
  have "?b \<in> set (numeric_entries s)" unfolding es by (rule first_max_mem)
  then have mem: "(fst ?b, Num (snd ?b)) \<in> set s"
    by (metis numeric_entries_mem prod.collapse)
  have "v' \<le> snd ?b" if "(k', Num v') \<in> set s" for k' v'
  proof -
    from that have "(k', v') \<in> set (e # es)" by (simp add: numeric_entries_mem flip: es)
    from first_max_greatest [OF this] show ?thesis by simp
  qed
  with res mem show ?thesis by blast
qed

lemma groupby_agg_no_rows:
  "key \<in> set (columns df) \<Longrightarrow> metric \<in> set (columns df) \<Longrightarrow> rows df = [] \<Longrightarrow>
   groupby_agg agg df key metric = Inr []"
  by (simp add: groupby_agg_def getitem_def ebind_def group_keys_def)

lemma numeric_entries_none: "\<forall>e\<in>set s. snd e = NaN \<Longrightarrow> numeric_entries s = []"
  by (induction s rule: numeric_entries.induct) auto

lemma idxmax_all_missing:
  "s \<noteq> [] \<Longrightarrow> \<forall>e\<in>set s. snd e = NaN \<Longrightarrow> idxmax all_missing s = all_missing"
  by (simp add: idxmax_def numeric_entries_none)

lemma idxmax_of_sums:
  assumes "groupby_sum double_sum df key metric = Inr s" and "s \<noteq> []"
  shows "\<exists>k v. idxmax all_missing s = Inr k \<and> (k, Num v) \<in> set s \<and>
           (\<forall>k' v'. (k', Num v') \<in> set s \<longrightarrow> v' \<le> v)"
proof -
  from assms(2) obtain e where e: "e \<in> set s" by (cases s) auto
  with groupby_sum_numbers [OF assms(1)] obtain v0 where "snd e = Num v0" by blast
  with e have "(fst e, Num v0) \<in> set s" by (metis prod.collapse)
  then show ?thesis by (rule idxmax_greatest)
qed

lemma survey_by_season:
  "groupby_sum unrounded_sum survey ''Season'' ''Production'' =
     Inr [(Str ''Kharif'', Num 10), (Str ''Rabi'', Num 50)]"
  by (simp add: groupby_sum_def groupby_agg_def getitem_def ebind_def survey_def survey_1_def
      survey_2_def survey_3_def is_text_def group_keys_def total_def unrounded_sum_def)

lemma fallow_by_state:
  "groupby_mean double_mean fallow ''State'' ''Yield'' = Inr [(Str ''A'', NaN)]"
  by (simp add: groupby_mean_def groupby_agg_def getitem_def ebind_def fallow_def fallow_1_def
      is_text_def group_keys_def mean_def)

lemma fallow_by_season:
  "groupby_sum double_sum fallow ''Season'' ''Production'' = Inr [(Str ''Kharif'', Num 0)]"
  by (simp add: groupby_sum_def groupby_agg_def getitem_def ebind_def fallow_def fallow_1_def
      is_text_def group_keys_def total_def)

text \<open>
  C8, as the code has it. The aggregate has an entry for every label that occurs in the
  table, also for a label whose rows all lack the metric: its mean is \<open>NaN\<close> and its sum
  is 0. A "best" query returns a label whose value is the greatest of the aggregate
  whenever the aggregate holds a number, which an aggregate of sums with an entry always
  does. It raises the \<open>ValueError\<close> of \<^verbatim>\<open>idxmax\<close> (the scripts define no error of their own)
  when the aggregate has no entry, that is when no row has a label, as on a table without
  rows. When the aggregate has
  entries and every mean is missing, the result is what \<^verbatim>\<open>idxmax\<close> of the installed pandas
  gives for a series without values. The dashboard runs the queries on a table with a
  row only and shows a notice otherwise.
\<close>

theorem best_key_greatest:
  "idxmax all_missing [] = Inl ValueError \<and>
   ((k0, Num v0) \<in> set s \<longrightarrow>
      (\<exists>k v. idxmax all_missing s = Inr k \<and> (k, Num v) \<in> set s \<and>
         (\<forall>k' v'. (k', Num v') \<in> set s \<longrightarrow> v' \<le> v))) \<and>
   (s \<noteq> [] \<and> (\<forall>e\<in>set s. snd e = NaN) \<longrightarrow> idxmax all_missing s = all_missing) \<and>
   (groupby_sum double_sum df key metric = Inr s \<and> s \<noteq> [] \<longrightarrow>
      (\<exists>k v. idxmax all_missing s = Inr k \<and> (k, Num v) \<in> set s \<and>
         (\<forall>k' v'. (k', Num v') \<in> set s \<longrightarrow> v' \<le> v))) \<and>
   (groupby_agg agg df key metric = Inr s \<longrightarrow>
      (s = [] \<longleftrightarrow> (\<forall>r\<in>set (rows df). r key = NaN))) \<and>
   (groupby_mean double_mean df ''State'' ''Yield'' = Inr s \<longrightarrow>
      best_state all_missing double_mean df = idxmax all_missing s) \<and>
   (groupby_mean double_mean df ''Crop'' ''Yield'' = Inr s \<longrightarrow>
      best_crop all_missing double_mean df = idxmax all_missing s) \<and>
   (groupby_sum double_sum df ''Season'' ''Production'' = Inr s \<longrightarrow>
      best_season all_missing double_sum df = idxmax all_missing s) \<and>
   (rows df = [] \<and> ''State'' \<in> set (columns df) \<and> ''Yield'' \<in> set (columns df) \<longrightarrow>
      best_state all_missing double_mean df = Inl ValueError) \<and>
   (rows df = [] \<and> ''Crop'' \<in> set (columns df) \<and> ''Yield'' \<in> set (columns df) \<longrightarrow>
      best_crop all_missing double_mean df = Inl ValueError) \<and>
   (rows df = [] \<and> ''Season'' \<in> set (columns df) \<and> ''Production'' \<in> set (columns df) \<longrightarrow>
      best_season all_missing double_sum df = Inl ValueError) \<and>
   (rows df = [] \<longrightarrow> key_insight query df = Inr None)"
proof -
  have empty: "idxmax all_missing [] = Inl ValueError" by (simp add: idxmax_def)
  have none: "rows df = [] \<and> c \<in> set (columns df) \<and> m \<in> set (columns df) \<Longrightarrow>
      ebind (groupby_agg f df c m) (idxmax all_missing) = Inl ValueError" for c m f
    by (simp add: groupby_agg_no_rows ebind_def empty)
  have notice: "rows df = [] \<longrightarrow> key_insight query df = Inr None"
    by (simp add: key_insight_def)
  have entries: "groupby_agg agg df key metric = Inr s \<longrightarrow>
      (s = [] \<longleftrightarrow> (\<forall>r\<in>set (rows df). r key = NaN))"
    using groupby_agg_empty by blast
  show ?thesis
    using idxmax_greatest [of k0 v0 s all_missing] empty notice entries
      idxmax_all_missing [of s all_missing] idxmax_of_sums [of double_sum df key metric s all_missing]
      none [of "''State''" "''Yield''" "mean double_mean"]
      none [of "''Crop''" "''Yield''" "mean double_mean"]
      none [of "''Season''" "''Production''" "total double_sum"]
    by (simp add: best_state_def best_crop_def best_season_def ebind_def groupby_mean_def
        groupby_sum_def)
qed

theorem best_key_greatest_witness:
  "groupby_mean unrounded_mean survey ''State'' ''Yield'' =
     Inr [(Str ''A'', Num (5 / 2)), (Str ''B'', Num 4)] \<and>
   best_state (Inl ValueError) unrounded_mean survey = Inr (Str ''B'') \<and>
   groupby_sum unrounded_sum survey ''Season'' ''Production'' =
     Inr [(Str ''Kharif'', Num 10), (Str ''Rabi'', Num 50)] \<and>
   best_season (Inl ValueError) unrounded_sum survey = Inr (Str ''Rabi'') \<and>
   groupby_mean unrounded_mean fallow ''State'' ''Yield'' = Inr [(Str ''A'', NaN)] \<and>
   best_state (Inl ValueError) unrounded_mean fallow = Inl ValueError \<and>
   rows (survey\<lparr>rows := []\<rparr>) = [] \<and>
   ''State'' \<in> set (columns (survey\<lparr>rows := []\<rparr>)) \<and>
   ''Yield'' \<in> set (columns (survey\<lparr>rows := []\<rparr>)) \<and>
   best_state (Inl ValueError) unrounded_mean (survey\<lparr>rows := []\<rparr>) = Inl ValueError \<and>
   key_insight (best_state (Inl ValueError) unrounded_mean) (survey\<lparr>rows := []\<rparr>) = Inr None"
proof -
  let ?by_state = "[(Str ''A'', Num (5 / 2)), (Str ''B'', Num 4)]"
  let ?by_season = "[(Str ''Kharif'', Num 10), (Str ''Rabi'', Num 50)]"
  let ?am = "Inl ValueError :: error + cell"
  let ?q = "best_state ?am unrounded_mean"
  have a: "idxmax ?am ?by_state = Inr (Str ''B'')"
    "idxmax ?am ?by_season = Inr (Str ''Rabi'')"
    by (simp_all add: idxmax_def)
  have cols: "''State'' \<in> set (columns (survey\<lparr>rows := []\<rparr>))"
    "''Yield'' \<in> set (columns (survey\<lparr>rows := []\<rparr>))"
    by (simp_all add: survey_def)
  from best_key_greatest [of ?am "Str ''A''" "5 / 2" ?by_state unrounded_sum survey
      "''Season''" "''Production''" "mean unrounded_mean" unrounded_mean ?q]
    best_key_greatest [of ?am "Str ''A''" "5 / 2" ?by_season unrounded_sum survey
      "''Season''" "''Production''" "mean unrounded_mean" unrounded_mean ?q]
    best_key_greatest [of ?am "Str ''A''" "5 / 2" "[(Str ''A'', NaN)]" unrounded_sum fallow
      "''Season''" "''Production''" "mean unrounded_mean" unrounded_mean ?q]
    best_key_greatest [of ?am "Str ''A''" "5 / 2" "[]" unrounded_sum "survey\<lparr>rows := []\<rparr>"
      "''Season''" "''Production''" "mean unrounded_mean" unrounded_mean ?q]
    survey_by_state survey_by_season fallow_by_state [of unrounded_mean] a cols
  show ?thesis by simp
qed

text \<open>
  On the table with one row and no production recorded, the query for the most productive
  season returns the season of that row, with a sum of 0 over no value at all, whatever
  \<^verbatim>\<open>idxmax\<close> does on a series without values. On the same table the aggregate of mean
  yields keeps the state of the row with a missing mean, and the query for the best state
  returns the \<open>NaN\<close> of \<^verbatim>\<open>idxmax\<close> where pandas answers that. No error is raised.
\<close>

theorem best_key_counterexample:
  "groupby_sum unrounded_sum fallow ''Season'' ''Production'' = Inr [(Str ''Kharif'', Num 0)] \<and>
   present (map (\<lambda>r. r ''Production'') (rows fallow)) = [] \<and>
   best_season (Inl ValueError) unrounded_sum fallow = Inr (Str ''Kharif'') \<and>
   best_season (Inr NaN) unrounded_sum fallow = Inr (Str ''Kharif'') \<and>
   groupby_mean unrounded_mean fallow ''State'' ''Yield'' = Inr [(Str ''A'', NaN)] \<and>
   best_state (Inr NaN) unrounded_mean fallow = Inr NaN"
  using fallow_by_season [of unrounded_sum] fallow_by_state [of unrounded_mean]
  by (simp add: best_season_def best_state_def ebind_def idxmax_def fallow_def fallow_1_def)

subsection \<open>Ranking\<close>

lemma gather_mset:
  assumes "mset p = mset [0..<length xs]"
  shows "mset (map (\<lambda>i. xs ! i) p) = mset xs"
proof -
  have "mset (map (\<lambda>i. xs ! i) p) = image_mset (\<lambda>i. xs ! i) (mset p)" by simp
  also have "\<dots> = image_mset (\<lambda>i. xs ! i) (mset [0..<length xs])" by (simp only: assms)
  also have "\<dots> = mset (map (\<lambda>i. xs ! i) [0..<length xs])" by simp
  also have "\<dots> = mset xs" by (simp only: map_nth)
  finally show ?thesis .
qed

lemma gather_values:
  assumes "mset p = mset [0..<length xs]"
  shows "map f (map (\<lambda>i. xs ! i) p) = map (\<lambda>i. map f xs ! i) p"
proof -
  from assms have "set p = set [0..<length xs]" by (metis set_mset_mset)
  then have "\<forall>i\<in>set p. i < length xs" by simp
  then show ?thesis by simp
qed

lemma before_values: "snd a \<noteq> NaN \<Longrightarrow> value_of b \<le> value_of a \<Longrightarrow> before a b"
  by (cases a; cases b; cases "snd a"; cases "snd b") auto

lemma before_missing: "snd b = NaN \<Longrightarrow> before a b"
  by (cases a; cases b; cases "snd a") auto

lemma partition_missing:
  "mset (filter (\<lambda>e. snd e \<noteq> NaN) s) + mset (filter (\<lambda>e. snd e = NaN) s) = mset s"
  by (induction s) simp_all

lemma ranked_before:
  assumes "\<forall>e\<in>set xs. snd e \<noteq> NaN"
    and "sorted_wrt (\<lambda>a b. value_of b \<le> value_of a) xs"
  shows "sorted_wrt before xs"
  using assms
proof (induction xs)
  case Nil
  then show ?case by simp
next
  case (Cons x xs)
  then have "\<forall>y\<in>set xs. before x y"
    by (simp add: before_values)
  with Cons show ?case by simp
qed

lemma missing_before: "\<forall>e\<in>set xs. snd e = NaN \<Longrightarrow> sorted_wrt before xs"
  by (induction xs) (simp_all add: before_missing)

lemma sort_values_desc_ranked:
  assumes ok: "argsort_ok argsort (map value_of (rev (filter (\<lambda>e. snd e \<noteq> NaN) s)))"
  shows "mset (sort_values_desc argsort s) = mset s" and "descending (sort_values_desc argsort s)"
proof -
  define rs where "rs = rev (filter (\<lambda>e. snd e \<noteq> NaN) s)"
  define p where "p = argsort (map value_of rs)"
  define ranked where "ranked = rev (map (\<lambda>i. rs ! i) p)"
  define nans where "nans = filter (\<lambda>e. snd e = NaN) s"
  have res: "sort_values_desc argsort s = ranked @ nans"
    unfolding sort_values_desc_def Let_def ranked_def nans_def p_def rs_def ..
  from ok have perm: "mset p = mset [0..<length rs]"
    and asc: "sorted (map (\<lambda>i. map value_of rs ! i) p)"
    unfolding argsort_ok_def p_def rs_def by simp_all
  have "mset ranked = mset rs"
    unfolding ranked_def mset_rev by (rule gather_mset [OF perm])
  also have "\<dots> = mset (filter (\<lambda>e. snd e \<noteq> NaN) s)"
    unfolding rs_def by (rule mset_rev)
  finally have ms: "mset ranked = mset (filter (\<lambda>e. snd e \<noteq> NaN) s)" .
  have "mset (ranked @ nans) = mset (filter (\<lambda>e. snd e \<noteq> NaN) s) + mset nans"
    by (simp only: mset_append ms)
  also have "\<dots> = mset s"
    unfolding nans_def by (rule partition_missing)
  finally show "mset (sort_values_desc argsort s) = mset s"
    by (simp only: res)
  have "set ranked = set (filter (\<lambda>e. snd e \<noteq> NaN) s)"
    using ms by (rule mset_eq_setD)
  then have vals: "\<forall>e\<in>set ranked. snd e \<noteq> NaN" by simp
  have "sorted (map value_of (map (\<lambda>i. rs ! i) p))"
    using asc by (simp only: gather_values [OF perm])
  then have "sorted_wrt (\<lambda>a b. value_of a \<le> value_of b) (map (\<lambda>i. rs ! i) p)"
    by (simp only: sorted_map)
  then have "sorted_wrt (\<lambda>a b. value_of b \<le> value_of a) ranked"
    unfolding ranked_def by (simp only: sorted_wrt_rev)
  with vals have r: "sorted_wrt before ranked" by (rule ranked_before)
  have n: "sorted_wrt before nans"
    by (rule missing_before) (simp add: nans_def)
  have "\<forall>a\<in>set ranked. \<forall>b\<in>set nans. before a b"
    by (simp add: nans_def before_missing)
  with r n show "descending (sort_values_desc argsort s)"
    unfolding res descending_def sorted_wrt_append by blast
qed

lemma tied_values: "map value_of (rev (filter (\<lambda>e. snd e \<noteq> NaN) tied_states)) = [2, 4, 4]"
  by (simp add: tied_states_def)

lemma upt3: "[0..<3] = [0, 1, 2]"
  by (simp add: upt_rec)

lemma stable_244: "argsort_stable [2, 4, 4] = [0, 1, 2]"
  by (simp add: argsort_stable_def upt3)

lemma reversing_244: "argsort_reversing [2, 4, 4] = [0, 2, 1]"
  by (simp add: argsort_reversing_def upt3)

lemma ok_stable:
  "argsort_ok argsort_stable (map value_of (rev (filter (\<lambda>e. snd e \<noteq> NaN) tied_states)))"
  unfolding tied_values argsort_ok_def stable_244 by (simp add: upt3)

lemma ok_reversing:
  "argsort_ok argsort_reversing (map value_of (rev (filter (\<lambda>e. snd e \<noteq> NaN) tied_states)))"
  unfolding tied_values argsort_ok_def reversing_244 by (simp add: upt3)

lemma ranked_stable: "sort_values_desc argsort_stable tied_states = tied_states"
  unfolding sort_values_desc_def Let_def tied_values stable_244
  by (simp add: tied_states_def)

lemma ranked_reversing:
  "sort_values_desc argsort_reversing tied_states =
     [(Str ''B'', Num 4), (Str ''A'', Num 4), (Str ''C'', Num 2)]"
  unfolding sort_values_desc_def Let_def tied_values reversing_244
  by (simp add: tied_states_def)

text \<open>
  C6, as the code has it. Whatever index sort numpy uses, the ranking is a rearrangement
  of the aggregate with the greater values first and the entries without a value last,
  and so is every head of it; chart 2 shows its first ten entries. The code names no
  tie-break: where two values are equal, the order of their labels is the one the index
  sort leaves them in.
\<close>

theorem ranking_descending:
  "argsort_ok argsort (map value_of (rev (filter (\<lambda>e. snd e \<noteq> NaN) s))) \<Longrightarrow>
   mset (sort_values_desc argsort s) = mset s \<and>
   descending (sort_values_desc argsort s) \<and>
   descending (take n (sort_values_desc argsort s)) \<and>
   (groupby_mean double_mean df ''State'' ''Yield'' = Inr s \<longrightarrow>
      top_states_yield argsort double_mean df = Inr (take 10 (sort_values_desc argsort s)))"
proof -
  assume ok: "argsort_ok argsort (map value_of (rev (filter (\<lambda>e. snd e \<noteq> NaN) s)))"
  note ranked = sort_values_desc_ranked [OF ok]
  from ranked(2) have "descending (take n (sort_values_desc argsort s))"
    unfolding descending_def by (rule sorted_wrt_take)
  with ranked show ?thesis
    by (simp add: top_states_yield_def ebind_def)
qed

text \<open>
  With an index sort that keeps equal values in place, the aggregate A: 4, B: 4, C: 2 is
  ranked A, B, C, as in the specification's example.
\<close>

theorem ranking_descending_witness:
  "argsort_ok argsort_stable (map value_of (rev (filter (\<lambda>e. snd e \<noteq> NaN) tied_states))) \<and>
   sort_values_desc argsort_stable tied_states = tied_states \<and>
   map fst (sort_values_desc argsort_stable tied_states) = [Str ''A'', Str ''B'', Str ''C''] \<and>
   mset (sort_values_desc argsort_stable tied_states) = mset tied_states \<and>
   descending (sort_values_desc argsort_stable tied_states)"
  using ranking_descending [OF ok_stable, of 10 unrounded_mean survey] ok_stable ranked_stable
  by (simp add: tied_states_def)

text \<open>
  With an index sort that meets the same contract and turns equal values round, the same
  aggregate is ranked B, A, C: the two states with equal means are not in ascending order
  of their labels.
\<close>

theorem ranking_tie_counterexample:
  "argsort_ok argsort_reversing
     (map value_of (rev (filter (\<lambda>e. snd e \<noteq> NaN) tied_states))) \<and>
   sort_values_desc argsort_reversing tied_states =
     [(Str ''B'', Num 4), (Str ''A'', Num 4), (Str ''C'', Num 2)] \<and>
   map fst (sort_values_desc argsort_reversing tied_states) \<noteq> [Str ''A'', Str ''B'', Str ''C'']"
  using ok_reversing ranked_reversing by simp

end
